theory Spec2Isabelle
  imports Complex_Main
begin

section \<open>Values of the analysis document\<close>

text \<open>
  The viewer reads one JSON document (complete_analysis.json). Every field of it is
  optional in the code, which tests fields for truthiness before use. A field is modelled
  at the type the document gives it, wrapped in \<open>option\<close>: \<open>None\<close> is the field that the
  document does not have (JS \<open>undefined\<close>). An explicit \<open>null\<close> behaves like an absent
  field in every truthiness test and default of the parser; session ids, the one kind of
  value that the code compares for identity, are strings or absent.
  A JSON number is a rational; NaN does not occur in a parsed document.
\<close>

type_synonym number = rat

text \<open>Truthiness: \<open>undefined\<close>, \<open>null\<close>, \<open>false\<close>, \<open>0\<close> and the empty string are falsy.\<close>

fun truthy_bool :: "bool option \<Rightarrow> bool" where
  "truthy_bool None = False"
| "truthy_bool (Some b) = b"

fun truthy_str :: "string option \<Rightarrow> bool" where
  "truthy_str None = False"
| "truthy_str (Some s) = (s \<noteq> [])"

text \<open>
  \<open>a || b\<close> is \<open>a\<close> when \<open>a\<close> is truthy and \<open>b\<close> otherwise. A number is falsy when it
  is 0, so \<open>n || 0\<close> is \<open>n\<close> or 0.
\<close>

definition or_bool :: "bool option \<Rightarrow> bool option \<Rightarrow> bool option" where
  "or_bool a b = (if truthy_bool a then a else b)"

definition or_num :: "number option \<Rightarrow> number \<Rightarrow> number" where
  "or_num a d = (case a of Some n \<Rightarrow> (if n \<noteq> 0 then n else d) | None \<Rightarrow> d)"

definition or_str :: "string option \<Rightarrow> string option \<Rightarrow> string option" where
  "or_str a b = (if truthy_str a then a else b)"

definition or_text :: "string option \<Rightarrow> string \<Rightarrow> string" where
  "or_text a d = (case a of Some s \<Rightarrow> (if s \<noteq> [] then s else d) | None \<Rightarrow> d)"

text \<open>An array is truthy even when it is empty, so \<open>xs || []\<close> only replaces an absent one.\<close>

definition or_list :: "'a list option \<Rightarrow> 'a list" where
  "or_list a = (case a of Some xs \<Rightarrow> xs | None \<Rightarrow> [])"

subsection \<open>The raw document (snake-case wire format)\<close>

record raw_screenshot =
  rs_filename :: "string option"
  rs_s3_key :: "string option"
  rs_timestamp :: "string option"
  rs_url :: "string option"
  rs_cache_key :: "string option"

record raw_ml_game =
  rmg_class :: "string option"
  rmg_confidence :: "number option"
  rmg_box :: "number list option"

record raw_ml_inference =
  rml_games :: "raw_ml_game list option"
  rml_number_of_games :: "number option"
  rml_latency_ms :: "number option"
  rml_is_uniform_frame :: "bool option"
  rml_error :: "string option"

record raw_post_game =
  rpg_game_id :: "string option"
  rpg_game_session_id :: "string option"

record raw_post_processed =
  rpp_games :: "raw_post_game list option"
  rpp_game_count :: "number option"
  rpp_event_type :: "string option"
  rpp_applied_threshold :: "bool option"
  rpp_sliding_window_state :: "string list option"
  rpp_error :: "string option"

record raw_db_session =
  rdb_game_session_id :: "string option"
  rdb_game_identifier :: "string option"
  rdb_game_name :: "string option"
  rdb_start_time :: "string option"
  rdb_end_time :: "string option"
  rdb_true_airtime :: "number option"
  rdb_matches_screenshot :: "bool option"

record raw_db_game_count =
  rgc_timestamp :: "string option"
  rgc_game_session_id :: "string option"
  rgc_game_identifier :: "string option"

text \<open>
  The flag object keeps its wire names after parsing: \<open>parseResult\<close> stores
  \<open>result.discrepancy_flags || {}\<close> as it is.
\<close>

record discrepancy_flags =
  ml_vs_postprocessing :: "bool option"
  postprocessing_vs_db :: "bool option"
  missing_in_db :: "bool option"
  extra_in_db :: "bool option"

record raw_result =
  rr_index :: "number option"
  rr_screenshot :: "raw_screenshot option"
  rr_ml_inference :: "raw_ml_inference option"
  rr_post_processed :: "raw_post_processed option"
  rr_db_sessions :: "raw_db_session list option"
  rr_db_game_counts :: "raw_db_game_count list option"
  rr_discrepancy_flags :: "discrepancy_flags option"

record raw_data =
  rd_session_id :: "string option"
  rd_platform :: "string option"
  rd_channel :: "string option"
  rd_date :: "string option"
  rd_start_time :: "string option"
  rd_end_time :: "string option"
  rd_analyzed_at :: "string option"
  rd_total :: "number option"
  rd_results :: "raw_result list option"

subsection \<open>The parsed session (camel-case objects built by the parser)\<close>

text \<open>
  In a parsed object \<open>None\<close> is \<open>null\<close> in a field built with \<open>x || null\<close>, which yields
  \<open>null\<close> for every falsy \<open>x\<close>, and \<open>undefined\<close> in a field copied without a default,
  which stays \<open>undefined\<close> when the document lacks it.
\<close>

record screenshot =
  ss_filename :: "string option"
  ss_s3Key :: "string option"
  ss_timestamp :: "string option"
  ss_url :: "string option"
  ss_cacheKey :: "string option"

record ml_game =
  mg_class :: "string option"
  mg_confidence :: "number option"
  mg_box :: "number list option"

record ml_inference =
  ml_games :: "ml_game list"
  ml_numberOfGames :: number
  ml_latencyMs :: number
  ml_isUniformFrame :: "bool option"
  ml_error :: "string option"

record post_game =
  pg_gameId :: "string option"
  pg_gameSessionId :: "string option"

record post_processed =
  pp_games :: "post_game list"
  pp_gameCount :: number
  pp_eventType :: string
  pp_appliedThreshold :: "bool option"
  pp_slidingWindowState :: "string list"
  pp_error :: "string option"

record db_session =
  db_gameSessionId :: "string option"
  db_gameIdentifier :: "string option"
  db_gameName :: "string option"
  db_startTime :: "string option"
  db_endTime :: "string option"
  db_trueAirtime :: number
  db_matchesScreenshot :: bool

record db_game_count =
  gc_timestamp :: "string option"
  gc_gameSessionId :: "string option"
  gc_gameIdentifier :: "string option"

record frame_result =
  index :: "number option"
  screenshot :: "screenshot option"
  mlInference :: "ml_inference option"
  postProcessed :: "post_processed option"
  dbSessions :: "db_session list"
  dbGameCounts :: "db_game_count list"
  discrepancyFlags :: discrepancy_flags
  hasDiscrepancy :: "bool option"

record session_metadata =
  sessionId :: string
  platform :: string
  channel :: string
  date :: string
  startTime :: "string option"
  endTime :: "string option"
  analyzedAt :: "string option"
  total :: number

section \<open>JSONParser\<close>

record json_parser =
  analysisData :: "raw_data option"
  sessionMetadata :: "session_metadata option"
  results :: "frame_result list"
  discrepancyCount :: nat

text \<open>The state the constructor sets; \<open>clear\<close> restores it.\<close>

definition new_parser :: json_parser where
  "new_parser = \<lparr>analysisData = None, sessionMetadata = None, results = [], discrepancyCount = 0\<rparr>"

definition clear :: "json_parser \<Rightarrow> json_parser" where
  "clear p = p\<lparr>analysisData := None, sessionMetadata := None, results := [], discrepancyCount := 0\<rparr>"

definition parseScreenshot :: "raw_screenshot option \<Rightarrow> screenshot option" where
  "parseScreenshot s =
     (case s of
        None \<Rightarrow> None
      | Some sc \<Rightarrow> Some \<lparr>ss_filename = rs_filename sc,
                         ss_s3Key = rs_s3_key sc,
                         ss_timestamp = rs_timestamp sc,
                         ss_url = or_str (rs_url sc) None,
                         ss_cacheKey = or_str (rs_cache_key sc) None\<rparr>)"

definition parseMLInference :: "raw_ml_inference option \<Rightarrow> ml_inference option" where
  "parseMLInference m =
     (case m of
        None \<Rightarrow> None
      | Some ml \<Rightarrow> Some \<lparr>
          ml_games = map (\<lambda>game. \<lparr>mg_class = rmg_class game,
                                     mg_confidence = rmg_confidence game,
                                     mg_box = rmg_box game\<rparr>)
                         (or_list (rml_games ml)),
          ml_numberOfGames = or_num (rml_number_of_games ml) 0,
          ml_latencyMs = or_num (rml_latency_ms ml) 0,
          ml_isUniformFrame = or_bool (rml_is_uniform_frame ml) (Some False),
          ml_error = or_str (rml_error ml) None\<rparr>)"

definition parsePostProcessed :: "raw_post_processed option \<Rightarrow> post_processed option" where
  "parsePostProcessed q =
     (case q of
        None \<Rightarrow> None
      | Some pp \<Rightarrow> Some \<lparr>
          pp_games = map (\<lambda>game. \<lparr>pg_gameId = rpg_game_id game,
                                     pg_gameSessionId = rpg_game_session_id game\<rparr>)
                         (or_list (rpp_games pp)),
          pp_gameCount = or_num (rpp_game_count pp) 0,
          pp_eventType = or_text (rpp_event_type pp) ''UNKNOWN'',
          pp_appliedThreshold = or_bool (rpp_applied_threshold pp) (Some False),
          pp_slidingWindowState = or_list (rpp_sliding_window_state pp),
          pp_error = or_str (rpp_error pp) None\<rparr>)"

text \<open>\<open>session.matches_screenshot !== false\<close> is false only for a literal \<open>false\<close>.\<close>

definition parseDBSessions :: "raw_db_session list option \<Rightarrow> db_session list" where
  "parseDBSessions d =
     (case d of
        None \<Rightarrow> []
      | Some dbs \<Rightarrow> map (\<lambda>session. \<lparr>
          db_gameSessionId = rdb_game_session_id session,
          db_gameIdentifier = rdb_game_identifier session,
          db_gameName = or_str (rdb_game_name session) (rdb_game_identifier session),
          db_startTime = rdb_start_time session,
          db_endTime = rdb_end_time session,
          db_trueAirtime = or_num (rdb_true_airtime session) 0,
          db_matchesScreenshot = (rdb_matches_screenshot session \<noteq> Some False)\<rparr>) dbs)"

definition parseDBGameCounts :: "raw_db_game_count list option \<Rightarrow> db_game_count list" where
  "parseDBGameCounts d =
     (case d of
        None \<Rightarrow> []
      | Some cs \<Rightarrow> map (\<lambda>count. \<lparr>gc_timestamp = rgc_timestamp count,
                                    gc_gameSessionId = rgc_game_session_id count,
                                    gc_gameIdentifier = rgc_game_identifier count\<rparr>) cs)"

text \<open>
  \<open>hasAnyDiscrepancy\<close> returns the value of the \<open>||\<close> chain, which is the first truthy
  flag, or the last flag (possibly \<open>undefined\<close>) when none is truthy.
\<close>

definition hasAnyDiscrepancy :: "discrepancy_flags option \<Rightarrow> bool option" where
  "hasAnyDiscrepancy f =
     (case f of
        None \<Rightarrow> Some False
      | Some flags \<Rightarrow>
          or_bool (ml_vs_postprocessing flags)
            (or_bool (postprocessing_vs_db flags)
              (or_bool (missing_in_db flags) (extra_in_db flags))))"

text \<open>The empty object \<open>{}\<close>.\<close>

definition no_flags :: discrepancy_flags where
  "no_flags = \<lparr>ml_vs_postprocessing = None, postprocessing_vs_db = None,
                missing_in_db = None, extra_in_db = None\<rparr>"

datatype error = Error string

text \<open>
  \<open>parseResult\<close> has no \<open>throw\<close> and reads no field of an absent object, so on a result
  object it always returns; the sum type records that outcome.
\<close>

definition parseResult :: "raw_result \<Rightarrow> error + frame_result" where
  "parseResult result = Inr \<lparr>
     index = rr_index result,
     screenshot = parseScreenshot (rr_screenshot result),
     mlInference = parseMLInference (rr_ml_inference result),
     postProcessed = parsePostProcessed (rr_post_processed result),
     dbSessions = parseDBSessions (rr_db_sessions result),
     dbGameCounts = parseDBGameCounts (rr_db_game_counts result),
     discrepancyFlags = (case rr_discrepancy_flags result of Some f \<Rightarrow> f | None \<Rightarrow> no_flags),
     hasDiscrepancy = hasAnyDiscrepancy (rr_discrepancy_flags result)\<rparr>"

text \<open>\<open>data.results.map(result => this.parseResult(result))\<close>: a throw inside ends the map.\<close>

fun parse_all :: "raw_result list \<Rightarrow> error + frame_result list" where
  "parse_all [] = Inr []"
| "parse_all (r # rs) =
     (case parseResult r of
        Inl e \<Rightarrow> Inl e
      | Inr x \<Rightarrow> (case parse_all rs of Inl e \<Rightarrow> Inl e | Inr xs \<Rightarrow> Inr (x # xs)))"

text \<open>
  \<open>validateAndParse\<close> throws before it assigns anything when a required field is missing;
  \<open>Inl\<close> is that throw, and the parser is then as it was. On success it replaces all four
  fields of the parser. (A throw out of \<open>parseResult\<close> would pass through after the
  metadata is stored; \<open>parseResult\<close> has none.)
\<close>

definition validateAndParse :: "json_parser \<Rightarrow> raw_data \<Rightarrow> error + json_parser" where
  "validateAndParse p data =
     (case rd_session_id data of
        None \<Rightarrow> Inl (Error ''Missing required field: session_id'')
      | Some sid \<Rightarrow>
          if sid = [] then Inl (Error ''Missing required field: session_id'')
          else (case rd_results data of
            None \<Rightarrow> Inl (Error ''Missing or invalid results array'')
          | Some rs \<Rightarrow>
              (case parse_all rs of
                 Inl e \<Rightarrow> Inl e
               | Inr parsed \<Rightarrow> Inr \<lparr>
                   analysisData = Some data,
                   sessionMetadata = Some \<lparr>
                     sessionId = sid,
                     platform = or_text (rd_platform data) ''unknown'',
                     channel = or_text (rd_channel data) ''unknown'',
                     date = or_text (rd_date data) ''unknown'',
                     startTime = or_str (rd_start_time data) None,
                     endTime = or_str (rd_end_time data) None,
                     analyzedAt = or_str (rd_analyzed_at data) None,
                     total = or_num (rd_total data) (of_nat (length rs))\<rparr>,
                   results = parsed,
                   discrepancyCount =
                     length (filter (\<lambda>r. truthy_bool (hasDiscrepancy r)) parsed)\<rparr>)))"

record discrepancy_stats =
  st_total :: nat
  st_withDiscrepancies :: nat
  st_mlVsPostprocessing :: nat
  st_postprocessingVsDb :: nat
  st_missingInDb :: nat
  st_extraInDb :: nat

text \<open>The body of the \<open>forEach\<close> of \<open>getDiscrepancyStats\<close>: four independent counters.\<close>

definition count_flags :: "discrepancy_stats \<Rightarrow> frame_result \<Rightarrow> discrepancy_stats" where
  "count_flags stats result =
     (let s1 = (if truthy_bool (ml_vs_postprocessing (discrepancyFlags result))
                then stats\<lparr>st_mlVsPostprocessing := st_mlVsPostprocessing stats + 1\<rparr> else stats);
          s2 = (if truthy_bool (postprocessing_vs_db (discrepancyFlags result))
                then s1\<lparr>st_postprocessingVsDb := st_postprocessingVsDb s1 + 1\<rparr> else s1);
          s3 = (if truthy_bool (missing_in_db (discrepancyFlags result))
                then s2\<lparr>st_missingInDb := st_missingInDb s2 + 1\<rparr> else s2)
      in (if truthy_bool (extra_in_db (discrepancyFlags result))
          then s3\<lparr>st_extraInDb := st_extraInDb s3 + 1\<rparr> else s3))"

definition getDiscrepancyStats :: "json_parser \<Rightarrow> discrepancy_stats" where
  "getDiscrepancyStats p =
     foldl count_flags
       \<lparr>st_total = length (results p), st_withDiscrepancies = discrepancyCount p,
        st_mlVsPostprocessing = 0, st_postprocessingVsDb = 0,
        st_missingInDb = 0, st_extraInDb = 0\<rparr>
       (results p)"

record filter_criteria =
  onlyDiscrepancies :: bool
  mlVsPost :: bool
  postVsDb :: bool
  missingInDb :: bool
  extraInDb :: bool

definition filterResults :: "json_parser \<Rightarrow> filter_criteria \<Rightarrow> frame_result list" where
  "filterResults p criteria =
     filter (\<lambda>result.
       if onlyDiscrepancies criteria \<and> \<not> truthy_bool (hasDiscrepancy result) then False
       else if mlVsPost criteria \<and> \<not> truthy_bool (ml_vs_postprocessing (discrepancyFlags result)) then False
       else if postVsDb criteria \<and> \<not> truthy_bool (postprocessing_vs_db (discrepancyFlags result)) then False
       else if missingInDb criteria \<and> \<not> truthy_bool (missing_in_db (discrepancyFlags result)) then False
       else if extraInDb criteria \<and> \<not> truthy_bool (extra_in_db (discrepancyFlags result)) then False
       else True) (results p)"

section \<open>DiscrepancyManager\<close>

text \<open>
  A description is a template literal. It is kept as its pieces, the literal text and the
  interpolated numbers in order; turning a number into text is left to the JS runtime.
\<close>

datatype piece = Text string | Num number

datatype details =
    MlVsPostDetails (mlGames: "ml_game list") (postGames: "post_game list")
      (slidingWindowState: "string list")
  | PostVsDbDetails (pvd_postGames: "post_game list") (pvd_dbSessions: "db_session list")
  | MissingInDbDetails (missingGames: "post_game list") (expectedCount: nat) (actualCount: nat)
  | ExtraInDbDetails (extraSessions: "db_session list")

record discrepancy =
  dtype :: string
  title :: string
  description :: "piece list"
  severity :: string
  details :: details

text \<open>
  \<open>result.mlInference?.numberOfGames || 0\<close>: an absent stage gives \<open>undefined\<close>, and
  \<open>undefined || 0\<close> and \<open>0 || 0\<close> are both \<open>0\<close>.
\<close>

definition analyzeMlVsPost :: "frame_result \<Rightarrow> discrepancy" where
  "analyzeMlVsPost result =
     (let mlGames = or_num (map_option ml_numberOfGames (mlInference result)) 0;
          postGames = or_num (map_option pp_gameCount (postProcessed result)) 0;
          (description, severity) =
            (if mlGames > postGames then
               ([Text ''ML detected '', Num mlGames,
                 Text '' game(s), but post-processing filtered down to '', Num postGames,
                 Text ''. This is normal for sliding window logic building up threshold.''],
                ''info'')
             else if mlGames < postGames then
               ([Text ''ML detected '', Num mlGames,
                 Text '' game(s), but post-processing returned '', Num postGames,
                 Text ''. This should not happen!''],
                ''error'')
             else
               ([Text ''ML and post-processing both show '', Num mlGames,
                 Text '' games, but with different game IDs.''],
                ''warning''))
      in \<lparr>dtype = ''ml-vs-post'',
          title = ''ML API vs Post-Processing Mismatch'',
          description = description,
          severity = severity,
          details = MlVsPostDetails
            (or_list (map_option ml_games (mlInference result)))
            (or_list (map_option pp_games (postProcessed result)))
            (or_list (map_option pp_slidingWindowState (postProcessed result)))\<rparr>)"

text \<open>\<open>result.dbSessions?.length || 0\<close> is the length: \<open>dbSessions\<close> is always an array.\<close>

definition analyzePostVsDb :: "frame_result \<Rightarrow> discrepancy" where
  "analyzePostVsDb result =
     (let postGames = or_num (map_option pp_gameCount (postProcessed result)) 0;
          dbCount = length (dbSessions result)
      in \<lparr>dtype = ''post-vs-db'',
          title = ''Post-Processing vs Database Mismatch'',
          description = [Text ''Post-processing shows '', Num postGames,
                         Text '' game(s), but database has '', Num (of_nat dbCount),
                         Text '' session(s). This indicates a DB write issue.''],
          severity = ''error'',
          details = PostVsDbDetails
            (or_list (map_option pp_games (postProcessed result)))
            (dbSessions result)\<rparr>)"

text \<open>
  \<open>new Set(ids)\<close> with \<open>has\<close> is membership among the ids. A session id is a string or
  \<open>undefined\<close>, which \<open>Set\<close> compares by value.
\<close>

definition analyzeMissingInDb :: "frame_result \<Rightarrow> discrepancy" where
  "analyzeMissingInDb result =
     (let postGames = or_list (map_option pp_games (postProcessed result));
          dbSessionIds = set (map db_gameSessionId (dbSessions result));
          missing = filter (\<lambda>game. pg_gameSessionId game \<notin> dbSessionIds) postGames
      in \<lparr>dtype = ''missing-in-db'',
          title = ''Games Missing in Database'',
          description = [Num (of_nat (length missing)),
                         Text '' game(s) from post-processing are missing in the database.''],
          severity = ''error'',
          details = MissingInDbDetails missing (length postGames) (length (dbSessions result))\<rparr>)"

definition analyzeExtraInDb :: "frame_result \<Rightarrow> discrepancy" where
  "analyzeExtraInDb result =
     (let postGameIds = set (map pg_gameSessionId (or_list (map_option pp_games (postProcessed result))));
          extra = filter (\<lambda>s. db_gameSessionId s \<notin> postGameIds) (dbSessions result)
      in \<lparr>dtype = ''extra-in-db'',
          title = ''Extra Sessions in Database'',
          description = [Num (of_nat (length extra)),
                         Text '' session(s) in database that were not in post-processing output.''],
          severity = ''warning'',
          details = ExtraInDbDetails extra\<rparr>)"

text \<open>
  \<open>analyzeResult\<close> pushes one record per set flag, in the fixed order of the four tests.
  (It also remembers the result in \<open>this.currentResult\<close>, which nothing reads.)
\<close>

definition analyzeResult :: "frame_result \<Rightarrow> discrepancy list" where
  "analyzeResult result =
     (if truthy_bool (ml_vs_postprocessing (discrepancyFlags result))
      then [analyzeMlVsPost result] else []) @
     (if truthy_bool (postprocessing_vs_db (discrepancyFlags result))
      then [analyzePostVsDb result] else []) @
     (if truthy_bool (missing_in_db (discrepancyFlags result))
      then [analyzeMissingInDb result] else []) @
     (if truthy_bool (extra_in_db (discrepancyFlags result))
      then [analyzeExtraInDb result] else [])"

text \<open>
  \<open>compareGameLists\<close> takes two lists and the name of the key property of each; the
  property read \<open>item[key]\<close> is the function \<open>key\<close> here. Keys are primitive values,
  which \<open>Set\<close> compares by value.
\<close>

record ('a, 'b) comparison =
  onlyInFirst :: "'a list"
  onlyInSecond :: "'b list"
  inBoth :: "'a list"
  match :: bool

definition compareGameLists ::
  "'a list \<Rightarrow> 'b list \<Rightarrow> ('a \<Rightarrow> 'k) \<Rightarrow> ('b \<Rightarrow> 'k) \<Rightarrow> ('a, 'b) comparison" where
  "compareGameLists list1 list2 key1 key2 =
     (let ids1 = set (map key1 list1);
          ids2 = set (map key2 list2);
          inFirst = filter (\<lambda>item. key1 item \<notin> ids2) list1;
          inSecond = filter (\<lambda>item. key2 item \<notin> ids1) list2;
          both = filter (\<lambda>item. key1 item \<in> ids2) list1
      in \<lparr>onlyInFirst = inFirst,
          onlyInSecond = inSecond,
          inBoth = both,
          match = (length inFirst = 0 \<and> length inSecond = 0)\<rparr>)"

section \<open>ScreenshotViewer\<close>

text \<open>
  The viewer state. \<open>currentIndex\<close> is a JS number used as an array position; it is an
  integer here because \<open>last\<close> on an empty view sets it to \<open>-1\<close>. The DOM and canvas
  calls (\<open>renderTimeline\<close>, \<open>displayCurrent\<close>) write none of these fields.
\<close>

record screenshot_viewer =
  vresults :: "frame_result list"
  filteredResults :: "frame_result list"
  currentIndex :: int
  filterCriteria :: filter_criteria
  showBoundingBoxes :: bool

definition no_criteria :: filter_criteria where
  "no_criteria = \<lparr>onlyDiscrepancies = False, mlVsPost = False, postVsDb = False,
                   missingInDb = False, extraInDb = False\<rparr>"

definition new_viewer :: screenshot_viewer where
  "new_viewer = \<lparr>vresults = [], filteredResults = [], currentIndex = 0,
                  filterCriteria = no_criteria, showBoundingBoxes = False\<rparr>"

text \<open>
  \<open>applyFilters\<close> filters the results of the global parser (\<open>window.jsonParser\<close>), the
  first argument here, and falls back to the viewer's own \<open>results\<close>. It returns nothing.
\<close>

definition applyFilters :: "json_parser \<Rightarrow> screenshot_viewer \<Rightarrow> screenshot_viewer" where
  "applyFilters p v =
     (let fr = filterResults p (filterCriteria v);
          v1 = v\<lparr>filteredResults :=
                   (if length fr = 0 \<and> length (vresults v) > 0 then vresults v else fr)\<rparr>
      in if currentIndex v1 \<ge> int (length (filteredResults v1))
         then v1\<lparr>currentIndex := 0\<rparr> else v1)"

definition loadResults :: "json_parser \<Rightarrow> frame_result list \<Rightarrow> screenshot_viewer \<Rightarrow> screenshot_viewer" where
  "loadResults p rs v = (applyFilters p (v\<lparr>vresults := rs\<rparr>))\<lparr>currentIndex := 0\<rparr>"

definition next_op :: "screenshot_viewer \<Rightarrow> screenshot_viewer" where
  "next_op v =
     (if currentIndex v < int (length (filteredResults v)) - 1
      then v\<lparr>currentIndex := currentIndex v + 1\<rparr> else v)"

definition previous_op :: "screenshot_viewer \<Rightarrow> screenshot_viewer" where
  "previous_op v =
     (if currentIndex v > 0 then v\<lparr>currentIndex := currentIndex v - 1\<rparr> else v)"

definition first_op :: "screenshot_viewer \<Rightarrow> screenshot_viewer" where
  "first_op v = v\<lparr>currentIndex := 0\<rparr>"

definition last_op :: "screenshot_viewer \<Rightarrow> screenshot_viewer" where
  "last_op v = v\<lparr>currentIndex := int (length (filteredResults v)) - 1\<rparr>"

text \<open>\<open>Array.prototype.findIndex\<close>: the position of the first match, or \<open>-1\<close>.\<close>

fun findIndex :: "('a \<Rightarrow> bool) \<Rightarrow> 'a list \<Rightarrow> int" where
  "findIndex P [] = - 1"
| "findIndex P (x # xs) =
     (if P x then 0 else (let i = findIndex P xs in if i = - 1 then - 1 else i + 1))"

text \<open>\<open>jumpTo\<close> returns a boolean and the state; \<open>r.index === index\<close> compares numbers.\<close>

definition jumpTo :: "number \<Rightarrow> screenshot_viewer \<Rightarrow> bool \<times> screenshot_viewer" where
  "jumpTo i v =
     (let resultIndex = findIndex (\<lambda>r. index r = Some i) (filteredResults v)
      in if resultIndex \<noteq> - 1 then (True, v\<lparr>currentIndex := resultIndex\<rparr>) else (False, v))"

text \<open>
  \<open>this.filterCriteria[filterName] = enabled\<close>: one of the five criteria, or a property
  that \<open>filterResults\<close> never reads.
\<close>

definition set_criterion :: "string \<Rightarrow> bool \<Rightarrow> filter_criteria \<Rightarrow> filter_criteria" where
  "set_criterion filterName enabled c =
     (if filterName = ''onlyDiscrepancies'' then c\<lparr>onlyDiscrepancies := enabled\<rparr>
      else if filterName = ''mlVsPost'' then c\<lparr>mlVsPost := enabled\<rparr>
      else if filterName = ''postVsDb'' then c\<lparr>postVsDb := enabled\<rparr>
      else if filterName = ''missingInDb'' then c\<lparr>missingInDb := enabled\<rparr>
      else if filterName = ''extraInDb'' then c\<lparr>extraInDb := enabled\<rparr>
      else c)"

definition updateFilter :: "json_parser \<Rightarrow> string \<Rightarrow> bool \<Rightarrow> screenshot_viewer \<Rightarrow> screenshot_viewer" where
  "updateFilter p filterName enabled v =
     applyFilters p (v\<lparr>filterCriteria := set_criterion filterName enabled (filterCriteria v)\<rparr>)"

definition clearFilters :: "json_parser \<Rightarrow> screenshot_viewer \<Rightarrow> screenshot_viewer" where
  "clearFilters p v = applyFilters p (v\<lparr>filterCriteria := no_criteria\<rparr>)"

text \<open>The operations a user can run on a loaded viewer, and a sequence of them.\<close>

datatype viewer_op =
    UpdateFilter string bool
  | ClearFilters
  | Next
  | Previous
  | First
  | Last
  | JumpTo number

fun run_op :: "json_parser \<Rightarrow> screenshot_viewer \<Rightarrow> viewer_op \<Rightarrow> screenshot_viewer" where
  "run_op p v (UpdateFilter n e) = updateFilter p n e v"
| "run_op p v ClearFilters = clearFilters p v"
| "run_op p v Next = next_op v"
| "run_op p v Previous = previous_op v"
| "run_op p v First = first_op v"
| "run_op p v Last = last_op v"
| "run_op p v (JumpTo i) = snd (jumpTo i v)"

definition run_ops :: "json_parser \<Rightarrow> screenshot_viewer \<Rightarrow> viewer_op list \<Rightarrow> screenshot_viewer" where
  "run_ops p v ops = foldl (run_op p) v ops"

section \<open>Properties referred to by the specification\<close>

text \<open>A result has a discrepancy flag set: the logical OR of the four flags.\<close>

definition any_flag :: "frame_result \<Rightarrow> bool" where
  "any_flag r =
     (truthy_bool (ml_vs_postprocessing (discrepancyFlags r)) \<or>
      truthy_bool (postprocessing_vs_db (discrepancyFlags r)) \<or>
      truthy_bool (missing_in_db (discrepancyFlags r)) \<or>
      truthy_bool (extra_in_db (discrepancyFlags r)))"

text \<open>The records of one category in the output of the classifier.\<close>

definition of_type :: "string \<Rightarrow> discrepancy list \<Rightarrow> discrepancy list" where
  "of_type t ds = filter (\<lambda>d. dtype d = t) ds"

text \<open>
  The games and the counts of the two stages of a result as the classifier reads them:
  an absent stage has no games and the count 0, a present stage the count it recorded.
\<close>

definition post_games :: "frame_result \<Rightarrow> post_game list" where
  "post_games r = (case postProcessed r of None \<Rightarrow> [] | Some pp \<Rightarrow> pp_games pp)"

definition inference_count :: "frame_result \<Rightarrow> number" where
  "inference_count r = (case mlInference r of None \<Rightarrow> 0 | Some m \<Rightarrow> ml_numberOfGames m)"

definition post_count :: "frame_result \<Rightarrow> number" where
  "post_count r = (case postProcessed r of None \<Rightarrow> 0 | Some pp \<Rightarrow> pp_gameCount pp)"

text \<open>
  The specification's reading of the counts: a stage that is absent or failed (its
  \<open>error\<close> string is present) counts as 0. The severity rule of category 1 on two counts.
\<close>

definition spec_inference_count :: "frame_result \<Rightarrow> number" where
  "spec_inference_count r =
     (case mlInference r of
        None \<Rightarrow> 0
      | Some m \<Rightarrow> if truthy_str (ml_error m) then 0 else ml_numberOfGames m)"

definition spec_post_count :: "frame_result \<Rightarrow> number" where
  "spec_post_count r =
     (case postProcessed r of
        None \<Rightarrow> 0
      | Some pp \<Rightarrow> if truthy_str (pp_error pp) then 0 else pp_gameCount pp)"

definition spec_severity :: "number \<Rightarrow> number \<Rightarrow> string" where
  "spec_severity i p = (if i > p then ''info'' else if i < p then ''error'' else ''warning'')"

text \<open>
  A viewer that holds results shows a non-empty view and its position lies inside the view.
\<close>

definition viewer_ok :: "screenshot_viewer \<Rightarrow> bool" where
  "viewer_ok v = (vresults v \<noteq> [] \<and> filteredResults v \<noteq> [] \<and> 0 \<le> currentIndex v \<and>
     currentIndex v < int (length (filteredResults v)))"

section \<open>Example documents\<close>

text \<open>The JSON object \<open>{}\<close> at each place of the document.\<close>

definition empty_screenshot :: raw_screenshot where
  "empty_screenshot = \<lparr>rs_filename = None, rs_s3_key = None, rs_timestamp = None,
                        rs_url = None, rs_cache_key = None\<rparr>"

definition empty_ml_game :: raw_ml_game where
  "empty_ml_game = \<lparr>rmg_class = None, rmg_confidence = None, rmg_box = None\<rparr>"

definition empty_ml_inference :: raw_ml_inference where
  "empty_ml_inference = \<lparr>rml_games = None, rml_number_of_games = None, rml_latency_ms = None,
                          rml_is_uniform_frame = None, rml_error = None\<rparr>"

definition empty_post_game :: raw_post_game where
  "empty_post_game = \<lparr>rpg_game_id = None, rpg_game_session_id = None\<rparr>"

definition empty_post_processed :: raw_post_processed where
  "empty_post_processed = \<lparr>rpp_games = None, rpp_game_count = None, rpp_event_type = None,
                            rpp_applied_threshold = None, rpp_sliding_window_state = None,
                            rpp_error = None\<rparr>"

definition empty_db_session :: raw_db_session where
  "empty_db_session = \<lparr>rdb_game_session_id = None, rdb_game_identifier = None,
                        rdb_game_name = None, rdb_start_time = None, rdb_end_time = None,
                        rdb_true_airtime = None, rdb_matches_screenshot = None\<rparr>"

definition empty_result :: raw_result where
  "empty_result = \<lparr>rr_index = None, rr_screenshot = None, rr_ml_inference = None,
                    rr_post_processed = None, rr_db_sessions = None, rr_db_game_counts = None,
                    rr_discrepancy_flags = None\<rparr>"

definition empty_data :: raw_data where
  "empty_data = \<lparr>rd_session_id = None, rd_platform = None, rd_channel = None, rd_date = None,
                  rd_start_time = None, rd_end_time = None, rd_analyzed_at = None,
                  rd_total = None, rd_results = None\<rparr>"

text \<open>
  The session of three results of the specification: the first with two detected games
  and one confirmed, the second with two confirmed games of which \<open>gs-42\<close> is not in the
  database, the third without flags.
\<close>

definition example_result_1 :: raw_result where
  "example_result_1 = empty_result\<lparr>
     rr_index := Some 1,
     rr_ml_inference := Some (empty_ml_inference\<lparr>
       rml_games := Some [empty_ml_game\<lparr>rmg_class := Some ''game-a''\<rparr>,
                          empty_ml_game\<lparr>rmg_class := Some ''game-b''\<rparr>],
       rml_number_of_games := Some 2\<rparr>),
     rr_post_processed := Some (empty_post_processed\<lparr>
       rpp_games := Some [\<lparr>rpg_game_id = Some ''game-a'', rpg_game_session_id = Some ''gs-40''\<rparr>],
       rpp_game_count := Some 1\<rparr>),
     rr_discrepancy_flags := Some (no_flags\<lparr>ml_vs_postprocessing := Some True\<rparr>)\<rparr>"

definition example_result_2 :: raw_result where
  "example_result_2 = empty_result\<lparr>
     rr_index := Some 2,
     rr_post_processed := Some (empty_post_processed\<lparr>
       rpp_games := Some [\<lparr>rpg_game_id = Some ''game-a'', rpg_game_session_id = Some ''gs-41''\<rparr>,
                          \<lparr>rpg_game_id = Some ''game-b'', rpg_game_session_id = Some ''gs-42''\<rparr>],
       rpp_game_count := Some 2\<rparr>),
     rr_db_sessions := Some [empty_db_session\<lparr>rdb_game_session_id := Some ''gs-41''\<rparr>],
     rr_discrepancy_flags := Some (no_flags\<lparr>missing_in_db := Some True\<rparr>)\<rparr>"

definition example_result_3 :: raw_result where
  "example_result_3 = empty_result\<lparr>rr_index := Some 3\<rparr>"

definition example_data :: raw_data where
  "example_data = empty_data\<lparr>
     rd_session_id := Some ''session-1'',
     rd_results := Some [example_result_1, example_result_2, example_result_3]\<rparr>"

text \<open>The frame that \<open>parseResult\<close> builds from \<open>{}\<close>.\<close>

definition empty_frame :: frame_result where
  "empty_frame = \<lparr>index = None, screenshot = None, mlInference = None, postProcessed = None,
                   dbSessions = [], dbGameCounts = [], discrepancyFlags = no_flags,
                   hasDiscrepancy = Some False\<rparr>"

text \<open>
  A frame whose inference stage failed after it had recorded two games:
  \<open>{"index": 4, "ml_inference": {"number_of_games": 2, "error": "inference timeout"},
  "post_processed": {"game_count": 1}, "discrepancy_flags": {"ml_vs_postprocessing": true}}\<close>.
\<close>

definition failed_inference_result :: raw_result where
  "failed_inference_result = empty_result\<lparr>
     rr_index := Some 4,
     rr_ml_inference := Some (empty_ml_inference\<lparr>
       rml_number_of_games := Some 2, rml_error := Some ''inference timeout''\<rparr>),
     rr_post_processed := Some (empty_post_processed\<lparr>rpp_game_count := Some 1\<rparr>),
     rr_discrepancy_flags := Some (no_flags\<lparr>ml_vs_postprocessing := Some True\<rparr>)\<rparr>"

definition failed_inference_frame :: frame_result where
  "failed_inference_frame = empty_frame\<lparr>
     index := Some 4,
     mlInference := Some \<lparr>ml_games = [], ml_numberOfGames = 2, ml_latencyMs = 0,
                          ml_isUniformFrame = Some False, ml_error = Some ''inference timeout''\<rparr>,
     postProcessed := Some \<lparr>pp_games = [], pp_gameCount = 1, pp_eventType = ''UNKNOWN'',
                            pp_appliedThreshold = Some False, pp_slidingWindowState = [],
                            pp_error = None\<rparr>,
     discrepancyFlags := no_flags\<lparr>ml_vs_postprocessing := Some True\<rparr>,
     hasDiscrepancy := Some True\<rparr>"

text \<open>A frame with a database session that post-processing did not report.\<close>

definition example_result_4 :: raw_result where
  "example_result_4 = empty_result\<lparr>
     rr_index := Some 7,
     rr_post_processed := Some (empty_post_processed\<lparr>
       rpp_games := Some [\<lparr>rpg_game_id = Some ''game-a'', rpg_game_session_id = Some ''gs-41''\<rparr>],
       rpp_game_count := Some 1\<rparr>),
     rr_db_sessions := Some [empty_db_session\<lparr>rdb_game_session_id := Some ''gs-41''\<rparr>,
                             empty_db_session\<lparr>rdb_game_session_id := Some ''gs-77''\<rparr>],
     rr_discrepancy_flags := Some (no_flags\<lparr>extra_in_db := Some True\<rparr>)\<rparr>"

text \<open>The frames that \<open>parseResult\<close> builds from the second and the fourth example.\<close>

definition example_frame_2 :: frame_result where
  "example_frame_2 = empty_frame\<lparr>
     index := Some 2,
     postProcessed := Some \<lparr>
       pp_games = [\<lparr>pg_gameId = Some ''game-a'', pg_gameSessionId = Some ''gs-41''\<rparr>,
                   \<lparr>pg_gameId = Some ''game-b'', pg_gameSessionId = Some ''gs-42''\<rparr>],
       pp_gameCount = 2, pp_eventType = ''UNKNOWN'', pp_appliedThreshold = Some False,
       pp_slidingWindowState = [], pp_error = None\<rparr>,
     dbSessions := [\<lparr>db_gameSessionId = Some ''gs-41'', db_gameIdentifier = None,
                     db_gameName = None, db_startTime = None, db_endTime = None,
                     db_trueAirtime = 0, db_matchesScreenshot = True\<rparr>],
     discrepancyFlags := no_flags\<lparr>missing_in_db := Some True\<rparr>,
     hasDiscrepancy := Some True\<rparr>"

definition example_frame_4 :: frame_result where
  "example_frame_4 = empty_frame\<lparr>
     index := Some 7,
     postProcessed := Some \<lparr>
       pp_games = [\<lparr>pg_gameId = Some ''game-a'', pg_gameSessionId = Some ''gs-41''\<rparr>],
       pp_gameCount = 1, pp_eventType = ''UNKNOWN'', pp_appliedThreshold = Some False,
       pp_slidingWindowState = [], pp_error = None\<rparr>,
     dbSessions := [\<lparr>db_gameSessionId = Some ''gs-41'', db_gameIdentifier = None,
                     db_gameName = None, db_startTime = None, db_endTime = None,
                     db_trueAirtime = 0, db_matchesScreenshot = True\<rparr>,
                    \<lparr>db_gameSessionId = Some ''gs-77'', db_gameIdentifier = None,
                     db_gameName = None, db_startTime = None, db_endTime = None,
                     db_trueAirtime = 0, db_matchesScreenshot = True\<rparr>],
     discrepancyFlags := no_flags\<lparr>extra_in_db := Some True\<rparr>,
     hasDiscrepancy := Some True\<rparr>"

text \<open>A flagged frame without an inference stage and with one confirmed game.\<close>

definition absent_inference_frame :: frame_result where
  "absent_inference_frame = empty_frame\<lparr>
     index := Some 5,
     postProcessed := Some \<lparr>
       pp_games = [\<lparr>pg_gameId = Some ''game-a'', pg_gameSessionId = Some ''gs-41''\<rparr>],
       pp_gameCount = 1, pp_eventType = ''UNKNOWN'', pp_appliedThreshold = Some False,
       pp_slidingWindowState = [], pp_error = None\<rparr>,
     discrepancyFlags := no_flags\<lparr>ml_vs_postprocessing := Some True\<rparr>,
     hasDiscrepancy := Some True\<rparr>"

text \<open>
  Two lists of games that share the key \<open>game-a\<close> but differ in the session of the game.
\<close>

definition first_list :: "post_game list" where
  "first_list = [\<lparr>pg_gameId = Some ''game-a'', pg_gameSessionId = Some ''gs-1''\<rparr>]"

definition second_list :: "post_game list" where
  "second_list = [\<lparr>pg_gameId = Some ''game-a'', pg_gameSessionId = Some ''gs-2''\<rparr>]"

text \<open>
  A document of two results, the second example and \<open>{}\<close>, the parser after reading it,
  and the viewer after loading the parsed results.
\<close>

definition example_document :: raw_data where
  "example_document = empty_data\<lparr>
     rd_session_id := Some ''session-2'',
     rd_results := Some [example_result_2, empty_result]\<rparr>"

definition example_parser :: json_parser where
  "example_parser = \<lparr>
     analysisData = Some example_document,
     sessionMetadata = Some \<lparr>sessionId = ''session-2'', platform = ''unknown'',
       channel = ''unknown'', date = ''unknown'', startTime = None, endTime = None,
       analyzedAt = None, total = 2\<rparr>,
     results = [example_frame_2, empty_frame],
     discrepancyCount = 1\<rparr>"

definition loaded_viewer :: screenshot_viewer where
  "loaded_viewer = \<lparr>vresults = [example_frame_2, empty_frame],
                     filteredResults = [example_frame_2, empty_frame],
                     currentIndex = 0, filterCriteria = no_criteria,
                     showBoundingBoxes = False\<rparr>"

text \<open>A run of the loaded viewer that reaches both ends of the view and both filter outcomes.\<close>

definition example_ops :: "viewer_op list" where
  "example_ops = [Next, UpdateFilter ''missingInDb'' True, Last, JumpTo 9, ClearFilters,
                  Last, Next, UpdateFilter ''extraInDb'' True]"

section \<open>The parser: flags and statistics\<close>

lemma count_flags_with [simp]:
  "st_withDiscrepancies (count_flags s r) = st_withDiscrepancies s"
  by (simp add: count_flags_def Let_def)

lemma foldl_count_flags_with:
  "st_withDiscrepancies (foldl count_flags s rs) = st_withDiscrepancies s"
  by (induction rs arbitrary: s) simp_all

lemma truthy_or_bool [simp]: "truthy_bool (or_bool a b) = (truthy_bool a \<or> truthy_bool b)"
  by (simp add: or_bool_def)

lemma hasAny_truthy:
  "truthy_bool (hasAnyDiscrepancy f) =
     (case f of None \<Rightarrow> False
      | Some fl \<Rightarrow> truthy_bool (ml_vs_postprocessing fl) \<or> truthy_bool (postprocessing_vs_db fl) \<or>
          truthy_bool (missing_in_db fl) \<or> truthy_bool (extra_in_db fl))"
  by (simp add: hasAnyDiscrepancy_def split: option.splits)

lemma parseResult_flags:
  "parseResult raw = Inr fr \<Longrightarrow> truthy_bool (hasDiscrepancy fr) = any_flag fr"
  by (auto simp: parseResult_def hasAny_truthy no_flags_def any_flag_def split: option.splits)

lemma parseResult_no_flags:
  "parseResult raw = Inr fr \<Longrightarrow> rr_discrepancy_flags raw = None \<Longrightarrow> hasDiscrepancy fr = Some False"
  by (auto simp: parseResult_def hasAnyDiscrepancy_def)

lemma parse_all_flags:
  "parse_all rs = Inr frs \<Longrightarrow> \<forall>r\<in>set frs. truthy_bool (hasDiscrepancy r) = any_flag r"
proof (induction rs arbitrary: frs)
  case Nil then show ?case by simp
next
  case (Cons a rs)
  then show ?case
    by (auto split: sum.splits dest: parseResult_flags)
qed

lemma validateAndParse_results:
  assumes "validateAndParse p data = Inr p'"
  shows "\<exists>rs. rd_results data = Some rs \<and> parse_all rs = Inr (results p') \<and>
           discrepancyCount p' = length (filter (\<lambda>r. truthy_bool (hasDiscrepancy r)) (results p'))"
  using assms
  by (auto simp: validateAndParse_def split: option.splits if_splits sum.splits)

text \<open>
  Claim C7. For every parsed FrameResult the derived \<open>hasDiscrepancy\<close>, read as a boolean,
  is the logical OR of the four discrepancy flags; when the document has no
  \<open>discrepancy_flags\<close> object it is \<open>false\<close>. After a successful \<open>validateAndParse\<close> the
  \<open>withDiscrepancies\<close> statistic is the number of results with at least one flag set.
\<close>

theorem hasDiscrepancy_or_of_flags:
  "(\<exists>fr. parseResult raw = Inr fr \<and>
        truthy_bool (hasDiscrepancy fr) = any_flag fr \<and>
        (rr_discrepancy_flags raw = None \<longrightarrow> hasDiscrepancy fr = Some False)) \<and>
   (\<forall>p'. validateAndParse p data = Inr p' \<longrightarrow>
        (\<forall>r\<in>set (results p'). truthy_bool (hasDiscrepancy r) = any_flag r) \<and>
        st_withDiscrepancies (getDiscrepancyStats p') = length (filter any_flag (results p')))"
proof (intro conjI allI impI)
  obtain fr where fr: "parseResult raw = Inr fr"
    by (simp add: parseResult_def)
  then show "\<exists>fr. parseResult raw = Inr fr \<and>
        truthy_bool (hasDiscrepancy fr) = any_flag fr \<and>
        (rr_discrepancy_flags raw = None \<longrightarrow> hasDiscrepancy fr = Some False)"
    using parseResult_flags parseResult_no_flags by blast
next
  fix p' assume ok: "validateAndParse p data = Inr p'"
  from validateAndParse_results [OF ok] obtain rs where
    rs: "parse_all rs = Inr (results p')" and
    cnt: "discrepancyCount p' = length (filter (\<lambda>r. truthy_bool (hasDiscrepancy r)) (results p'))"
    by blast
  show all: "\<forall>r\<in>set (results p'). truthy_bool (hasDiscrepancy r) = any_flag r"
    by (rule parse_all_flags [OF rs])
  have "filter (\<lambda>r. truthy_bool (hasDiscrepancy r)) (results p') = filter any_flag (results p')"
    using all by (intro filter_cong) auto
  then show "st_withDiscrepancies (getDiscrepancyStats p') = length (filter any_flag (results p'))"
    by (simp add: getDiscrepancyStats_def foldl_count_flags_with cnt)
qed

theorem hasDiscrepancy_or_of_flags_witness:
  "(\<exists>fr. parseResult example_result_3 = Inr fr \<and> hasDiscrepancy fr = Some False \<and> \<not> any_flag fr) \<and>
   (\<exists>fr. parseResult example_result_2 = Inr fr \<and> truthy_bool (hasDiscrepancy fr) \<and> any_flag fr) \<and>
   (\<exists>p'. validateAndParse new_parser example_data = Inr p' \<and>
          length (results p') = 3 \<and>
          st_withDiscrepancies (getDiscrepancyStats p') = 2 \<and>
          length (filter any_flag (results p')) = 2)"
proof -
  have ok: "\<exists>p'. validateAndParse new_parser example_data = Inr p'"
    by (simp add: validateAndParse_def example_data_def empty_data_def parseResult_def)
  then obtain p' where p': "validateAndParse new_parser example_data = Inr p'" by blast
  then have res: "results p' = map (\<lambda>r. projr (parseResult r)) [example_result_1, example_result_2, example_result_3]"
    by (auto simp: validateAndParse_def example_data_def empty_data_def parseResult_def)
  have n: "length (filter any_flag (results p')) = 2"
    unfolding res
    by (simp add: parseResult_def any_flag_def example_result_1_def example_result_2_def
        example_result_3_def empty_result_def no_flags_def)
  have a3: "rr_discrepancy_flags example_result_3 = None"
    by (simp add: example_result_3_def empty_result_def)
  have a2: "any_flag (projr (parseResult example_result_2))"
    by (simp add: parseResult_def any_flag_def example_result_2_def empty_result_def no_flags_def)
  show ?thesis
    using hasDiscrepancy_or_of_flags [of example_result_3 new_parser example_data]
      hasDiscrepancy_or_of_flags [of example_result_2 new_parser example_data]
      p' n a3 a2 res
    by auto
qed

section \<open>The classifier\<close>

lemma or_list_games: "or_list (map_option pp_games (postProcessed r)) = post_games r"
  by (simp add: or_list_def post_games_def split: option.splits)

lemma or_num_inference: "or_num (map_option ml_numberOfGames (mlInference r)) 0 = inference_count r"
  by (simp add: or_num_def inference_count_def split: option.splits)

lemma or_num_post: "or_num (map_option pp_gameCount (postProcessed r)) 0 = post_count r"
  by (simp add: or_num_def post_count_def split: option.splits)

lemma dtype_simps [simp]:
  "dtype (analyzeMlVsPost r) = ''ml-vs-post''"
  "dtype (analyzePostVsDb r) = ''post-vs-db''"
  "dtype (analyzeMissingInDb r) = ''missing-in-db''"
  "dtype (analyzeExtraInDb r) = ''extra-in-db''"
  by (simp_all add: analyzeMlVsPost_def analyzePostVsDb_def analyzeMissingInDb_def
      analyzeExtraInDb_def Let_def split: prod.splits)

lemma of_type_missing:
  "truthy_bool (missing_in_db (discrepancyFlags r)) \<Longrightarrow>
   of_type ''missing-in-db'' (analyzeResult r) = [analyzeMissingInDb r]"
  by (simp add: analyzeResult_def of_type_def)

lemma of_type_extra:
  "truthy_bool (extra_in_db (discrepancyFlags r)) \<Longrightarrow>
   of_type ''extra-in-db'' (analyzeResult r) = [analyzeExtraInDb r]"
  by (simp add: analyzeResult_def of_type_def)

lemma of_type_ml:
  "truthy_bool (ml_vs_postprocessing (discrepancyFlags r)) \<Longrightarrow>
   of_type ''ml-vs-post'' (analyzeResult r) = [analyzeMlVsPost r]"
  by (simp add: analyzeResult_def of_type_def)

lemma severity_ml:
  "severity (analyzeMlVsPost r) = spec_severity (inference_count r) (post_count r)"
  by (simp add: analyzeMlVsPost_def or_num_inference or_num_post spec_severity_def Let_def)

lemma details_ml:
  "details (analyzeMlVsPost r) =
     MlVsPostDetails (case mlInference r of None \<Rightarrow> [] | Some m \<Rightarrow> ml_games m) (post_games r)
       (case postProcessed r of None \<Rightarrow> [] | Some pp \<Rightarrow> pp_slidingWindowState pp)"
  by (simp add: analyzeMlVsPost_def or_list_def post_games_def Let_def split: option.splits prod.splits)

text \<open>
  Claim C1, as amended. For every FrameResult whose \<open>ml_vs_postprocessing\<close> flag is set,
  \<open>analyzeResult\<close> produces exactly one category-1 record; its severity is \<open>info\<close> exactly
  when the inference count is greater than the post-processed count, \<open>error\<close> exactly when
  it is less, and \<open>warning\<close> exactly when the two are equal. An absent stage counts as 0; a
  present stage is compared by the count it recorded, whether or not it carries an error.
  The classifier is a total function: no input makes it fail.
\<close>

theorem ml_vs_post_record:
  assumes "truthy_bool (ml_vs_postprocessing (discrepancyFlags r))"
  shows "\<exists>d. of_type ''ml-vs-post'' (analyzeResult r) = [d] \<and>
     (severity d = ''info'' \<longleftrightarrow> inference_count r > post_count r) \<and>
     (severity d = ''error'' \<longleftrightarrow> inference_count r < post_count r) \<and>
     (severity d = ''warning'' \<longleftrightarrow> inference_count r = post_count r) \<and>
     (mlInference r = None \<longrightarrow> inference_count r = 0) \<and>
     (postProcessed r = None \<longrightarrow> post_count r = 0) \<and>
     (\<forall>m. mlInference r = Some m \<longrightarrow> inference_count r = ml_numberOfGames m) \<and>
     (\<forall>pp. postProcessed r = Some pp \<longrightarrow> post_count r = pp_gameCount pp)"
proof -
  have "severity (analyzeMlVsPost r) = spec_severity (inference_count r) (post_count r)"
    by (rule severity_ml)
  then have
    "(severity (analyzeMlVsPost r) = ''info'' \<longleftrightarrow> inference_count r > post_count r) \<and>
     (severity (analyzeMlVsPost r) = ''error'' \<longleftrightarrow> inference_count r < post_count r) \<and>
     (severity (analyzeMlVsPost r) = ''warning'' \<longleftrightarrow> inference_count r = post_count r)"
    by (auto simp: spec_severity_def)
  moreover have "mlInference r = None \<longrightarrow> inference_count r = 0"
    and "postProcessed r = None \<longrightarrow> post_count r = 0"
    and "\<forall>m. mlInference r = Some m \<longrightarrow> inference_count r = ml_numberOfGames m"
    and "\<forall>pp. postProcessed r = Some pp \<longrightarrow> post_count r = pp_gameCount pp"
    by (simp_all add: inference_count_def post_count_def)
  ultimately show ?thesis
    using of_type_ml [OF assms] by simp
qed

lemma parse_failed: "parseResult failed_inference_result = Inr failed_inference_frame"
  by (simp add: parseResult_def failed_inference_result_def failed_inference_frame_def
      empty_result_def empty_frame_def empty_ml_inference_def empty_post_processed_def
      parseScreenshot_def parseMLInference_def parsePostProcessed_def parseDBSessions_def
      parseDBGameCounts_def hasAnyDiscrepancy_def no_flags_def or_list_def or_num_def
      or_bool_def or_str_def or_text_def)

text \<open>
  Claim C1 as stated treats a failed stage as count 0. The frame parsed from the document
  above has a failed inference stage that recorded two games against one confirmed game:
  the classifier answers \<open>info\<close> (2 > 1), where the count 0 would give \<open>error\<close> (0 < 1).
\<close>

theorem failed_stage_count_counterexample:
  "parseResult failed_inference_result = Inr failed_inference_frame \<and>
   truthy_bool (ml_vs_postprocessing (discrepancyFlags failed_inference_frame)) \<and>
   map_option ml_error (mlInference failed_inference_frame) = Some (Some ''inference timeout'') \<and>
   map severity (of_type ''ml-vs-post'' (analyzeResult failed_inference_frame)) = [''info''] \<and>
   spec_severity (spec_inference_count failed_inference_frame)
     (spec_post_count failed_inference_frame) = ''error''"
proof -
  have flag: "truthy_bool (ml_vs_postprocessing (discrepancyFlags failed_inference_frame))"
    by (simp add: failed_inference_frame_def no_flags_def)
  have "severity (analyzeMlVsPost failed_inference_frame) = ''info''"
    by (simp add: severity_ml spec_severity_def inference_count_def post_count_def
        failed_inference_frame_def)
  then have "map severity (of_type ''ml-vs-post'' (analyzeResult failed_inference_frame)) = [''info'']"
    by (simp add: of_type_ml [OF flag])
  moreover have "spec_severity (spec_inference_count failed_inference_frame)
     (spec_post_count failed_inference_frame) = ''error''"
    by (simp add: spec_severity_def spec_inference_count_def spec_post_count_def
        failed_inference_frame_def)
  moreover have "map_option ml_error (mlInference failed_inference_frame) = Some (Some ''inference timeout'')"
    by (simp add: failed_inference_frame_def)
  ultimately show ?thesis using parse_failed flag by simp
qed

text \<open>
  Claim C2. For every FrameResult whose \<open>missing_in_db\<close> flag is set, the category-3
  record has severity \<open>error\<close>; its evidence is exactly the post-processed games whose
  \<open>gameSessionId\<close> equals that of no database session, in their order; the number in its
  description is the size of that evidence; \<open>expectedCount\<close> is the number of
  post-processed games and \<open>actualCount\<close> the number of database sessions.
\<close>

theorem missing_in_db_record:
  assumes "truthy_bool (missing_in_db (discrepancyFlags r))"
  shows "\<exists>d missing.
     of_type ''missing-in-db'' (analyzeResult r) = [d] \<and>
     severity d = ''error'' \<and>
     details d = MissingInDbDetails missing (length (post_games r)) (length (dbSessions r)) \<and>
     missing = filter (\<lambda>g. pg_gameSessionId g \<notin> db_gameSessionId ` set (dbSessions r)) (post_games r) \<and>
     description d = [Num (of_nat (length missing)),
                      Text '' game(s) from post-processing are missing in the database.'']"
  using of_type_missing [OF assms]
  by (simp add: analyzeMissingInDb_def or_list_games Let_def)

text \<open>
  Claim C3. For every FrameResult whose \<open>extra_in_db\<close> flag is set, the category-4 record
  has severity \<open>warning\<close>, not \<open>error\<close>, and its evidence is exactly the database sessions
  whose \<open>gameSessionId\<close> equals that of no post-processed game, in their order.
\<close>

theorem extra_in_db_record:
  assumes "truthy_bool (extra_in_db (discrepancyFlags r))"
  shows "\<exists>d.
     of_type ''extra-in-db'' (analyzeResult r) = [d] \<and>
     severity d = ''warning'' \<and> severity d \<noteq> ''error'' \<and>
     details d = ExtraInDbDetails
       (filter (\<lambda>s. db_gameSessionId s \<notin> pg_gameSessionId ` set (post_games r)) (dbSessions r))"
  using of_type_extra [OF assms]
  by (simp add: analyzeExtraInDb_def or_list_games Let_def)


lemmas parse_defs =
  parseResult_def parseScreenshot_def parseMLInference_def parsePostProcessed_def
  parseDBSessions_def parseDBGameCounts_def hasAnyDiscrepancy_def no_flags_def or_list_def
  or_num_def or_bool_def or_str_def or_text_def
  empty_result_def empty_frame_def empty_ml_inference_def empty_post_processed_def
  empty_db_session_def empty_ml_game_def empty_post_game_def empty_screenshot_def

lemma parse_example_2: "parseResult example_result_2 = Inr example_frame_2"
  by (simp add: example_result_2_def example_frame_2_def parse_defs)

lemma parse_example_4: "parseResult example_result_4 = Inr example_frame_4"
  by (simp add: example_result_4_def example_frame_4_def parse_defs)

theorem ml_vs_post_record_witness:
  "truthy_bool (ml_vs_postprocessing (discrepancyFlags absent_inference_frame)) \<and>
   mlInference absent_inference_frame = None \<and>
   inference_count absent_inference_frame = 0 \<and>
   post_count absent_inference_frame = 1 \<and>
   map severity (of_type ''ml-vs-post'' (analyzeResult absent_inference_frame)) = [''error''] \<and>
   truthy_bool (ml_vs_postprocessing (discrepancyFlags failed_inference_frame)) \<and>
   inference_count failed_inference_frame = 2 \<and>
   post_count failed_inference_frame = 1 \<and>
   map severity (of_type ''ml-vs-post'' (analyzeResult failed_inference_frame)) = [''info'']"
proof -
  have f1: "truthy_bool (ml_vs_postprocessing (discrepancyFlags absent_inference_frame))"
    by (simp add: absent_inference_frame_def no_flags_def)
  have f2: "truthy_bool (ml_vs_postprocessing (discrepancyFlags failed_inference_frame))"
    by (simp add: failed_inference_frame_def no_flags_def)
  have a: "mlInference absent_inference_frame = None"
    and b: "postProcessed absent_inference_frame \<noteq> None"
    and c: "post_count absent_inference_frame = 1"
    by (simp_all add: absent_inference_frame_def empty_frame_def post_count_def)
  have d: "inference_count failed_inference_frame = 2"
    and e: "post_count failed_inference_frame = 1"
    by (simp_all add: failed_inference_frame_def inference_count_def post_count_def)
  from ml_vs_post_record [OF f1] a c
  have s1: "map severity (of_type ''ml-vs-post'' (analyzeResult absent_inference_frame)) = [''error'']"
    and i1: "inference_count absent_inference_frame = 0"
    by auto
  from ml_vs_post_record [OF f2] d e
  have s2: "map severity (of_type ''ml-vs-post'' (analyzeResult failed_inference_frame)) = [''info'']"
    by auto
  show ?thesis using f1 f2 a c d e s1 i1 s2 by simp
qed

theorem missing_in_db_record_witness:
  "parseResult example_result_2 = Inr example_frame_2 \<and>
   truthy_bool (missing_in_db (discrepancyFlags example_frame_2)) \<and>
   map severity (of_type ''missing-in-db'' (analyzeResult example_frame_2)) = [''error''] \<and>
   map details (of_type ''missing-in-db'' (analyzeResult example_frame_2)) =
     [MissingInDbDetails [\<lparr>pg_gameId = Some ''game-b'', pg_gameSessionId = Some ''gs-42''\<rparr>] 2 1] \<and>
   map description (of_type ''missing-in-db'' (analyzeResult example_frame_2)) =
     [[Num 1, Text '' game(s) from post-processing are missing in the database.'']]"
proof -
  have f: "truthy_bool (missing_in_db (discrepancyFlags example_frame_2))"
    by (simp add: example_frame_2_def no_flags_def)
  have g: "post_games example_frame_2 =
      [\<lparr>pg_gameId = Some ''game-a'', pg_gameSessionId = Some ''gs-41''\<rparr>,
       \<lparr>pg_gameId = Some ''game-b'', pg_gameSessionId = Some ''gs-42''\<rparr>]"
    and h: "map db_gameSessionId (dbSessions example_frame_2) = [Some ''gs-41'']"
    by (simp_all add: example_frame_2_def post_games_def)
  have h': "db_gameSessionId ` set (dbSessions example_frame_2) = {Some ''gs-41''}"
    using h by (metis list.set_map list.simps(15) empty_set)
  have l: "length (dbSessions example_frame_2) = 1"
    using h by (metis length_map length_Cons list.size(3) One_nat_def)
  from missing_in_db_record [OF f] show ?thesis
    using parse_example_2 f by (auto simp: g h' l)
qed

theorem extra_in_db_record_witness:
  "parseResult example_result_4 = Inr example_frame_4 \<and>
   truthy_bool (extra_in_db (discrepancyFlags example_frame_4)) \<and>
   map severity (of_type ''extra-in-db'' (analyzeResult example_frame_4)) = [''warning''] \<and>
   map details (of_type ''extra-in-db'' (analyzeResult example_frame_4)) =
     [ExtraInDbDetails [\<lparr>db_gameSessionId = Some ''gs-77'', db_gameIdentifier = None,
                     db_gameName = None, db_startTime = None, db_endTime = None,
                     db_trueAirtime = 0, db_matchesScreenshot = True\<rparr>]]"
proof -
  have f: "truthy_bool (extra_in_db (discrepancyFlags example_frame_4))"
    by (simp add: example_frame_4_def no_flags_def)
  have g: "post_games example_frame_4 =
      [\<lparr>pg_gameId = Some ''game-a'', pg_gameSessionId = Some ''gs-41''\<rparr>]"
    by (simp add: example_frame_4_def post_games_def)
  have h: "dbSessions example_frame_4 =
     [\<lparr>db_gameSessionId = Some ''gs-41'', db_gameIdentifier = None,
                     db_gameName = None, db_startTime = None, db_endTime = None,
                     db_trueAirtime = 0, db_matchesScreenshot = True\<rparr>,
                    \<lparr>db_gameSessionId = Some ''gs-77'', db_gameIdentifier = None,
                     db_gameName = None, db_startTime = None, db_endTime = None,
                     db_trueAirtime = 0, db_matchesScreenshot = True\<rparr>]"
    by (simp add: example_frame_4_def)
  from extra_in_db_record [OF f] show ?thesis
    using parse_example_4 f by (auto simp: g h)
qed

section \<open>List reconciliation\<close>

text \<open>
  Claim C4, as amended. Swapping the two inputs of \<open>compareGameLists\<close> (with their keys)
  swaps \<open>onlyInFirst\<close> with \<open>onlyInSecond\<close> and leaves \<open>match\<close> unchanged; \<open>match\<close> holds
  exactly when both difference lists are empty. \<open>inBoth\<close> holds the items of the first list
  whose key occurs in the second, so after the swap it holds items of the other list: the
  set of keys of \<open>inBoth\<close> is unchanged.
\<close>

theorem compareGameLists_swap:
  "onlyInFirst (compareGameLists list2 list1 key2 key1) =
     onlyInSecond (compareGameLists list1 list2 key1 key2) \<and>
   onlyInSecond (compareGameLists list2 list1 key2 key1) =
     onlyInFirst (compareGameLists list1 list2 key1 key2) \<and>
   match (compareGameLists list2 list1 key2 key1) =
     match (compareGameLists list1 list2 key1 key2) \<and>
   match (compareGameLists list1 list2 key1 key2) =
     (onlyInFirst (compareGameLists list1 list2 key1 key2) = [] \<and>
      onlyInSecond (compareGameLists list1 list2 key1 key2) = []) \<and>
   inBoth (compareGameLists list1 list2 key1 key2) =
     filter (\<lambda>item. key1 item \<in> key2 ` set list2) list1 \<and>
   inBoth (compareGameLists list2 list1 key2 key1) =
     filter (\<lambda>item. key2 item \<in> key1 ` set list1) list2 \<and>
   key2 ` set (inBoth (compareGameLists list2 list1 key2 key1)) =
     key1 ` set (inBoth (compareGameLists list1 list2 key1 key2))"
proof -
  have "key2 ` {x \<in> set list2. key2 x \<in> key1 ` set list1} =
        key1 ` {x \<in> set list1. key1 x \<in> key2 ` set list2}"
    by (rule set_eqI) (auto simp: image_iff, metis+)
  then show ?thesis
    by (auto simp: compareGameLists_def Let_def)
qed

text \<open>
  Claim C4 as stated has \<open>inBoth\<close> unchanged by the swap. On two one-element lists with the
  same \<open>gameId\<close> and different sessions, \<open>inBoth\<close> is the first list before the swap and the
  second list after it.
\<close>

theorem inBoth_swap_counterexample:
  "inBoth (compareGameLists first_list second_list pg_gameId pg_gameId) = first_list \<and>
   inBoth (compareGameLists second_list first_list pg_gameId pg_gameId) = second_list \<and>
   inBoth (compareGameLists second_list first_list pg_gameId pg_gameId) \<noteq>
     inBoth (compareGameLists first_list second_list pg_gameId pg_gameId)"
  by (simp add: compareGameLists_def first_list_def second_list_def)

section \<open>The viewer\<close>

lemma parse_empty: "parseResult empty_result = Inr empty_frame"
  by (simp add: parse_defs)

lemma parse_example_document:
  "validateAndParse new_parser example_document = Inr example_parser"
proof -
  have "parse_all [example_result_2, empty_result] = Inr [example_frame_2, empty_frame]"
    by (simp add: parse_example_2 parse_empty)
  moreover have "truthy_bool (hasDiscrepancy example_frame_2)"
    "\<not> truthy_bool (hasDiscrepancy empty_frame)"
    by (simp_all add: example_frame_2_def empty_frame_def)
  ultimately show ?thesis
    by (simp add: validateAndParse_def example_document_def empty_data_def example_parser_def
        or_text_def or_str_def or_num_def)
qed

lemma findIndex_range: "findIndex P xs = - 1 \<or> (0 \<le> findIndex P xs \<and> findIndex P xs < int (length xs))"
  by (induction xs) (auto simp: Let_def)

lemma findIndex_none: "findIndex P xs = - 1 \<longleftrightarrow> (\<forall>x\<in>set xs. \<not> P x)"
proof (induction xs)
  case Nil
  then show ?case by simp
next
  case (Cons x xs)
  from findIndex_range [of P xs] have "findIndex P xs + 1 \<noteq> - 1" by auto
  with Cons show ?case by (auto simp: Let_def)
qed

lemma findIndex_first:
  "findIndex P xs \<noteq> - 1 \<Longrightarrow>
     P (xs ! nat (findIndex P xs)) \<and> (\<forall>j < nat (findIndex P xs). \<not> P (xs ! j))"
proof (induction xs)
  case Nil
  then show ?case by simp
next
  case (Cons x xs)
  show ?case
  proof (cases "P x")
    case True
    then show ?thesis by simp
  next
    case False
    with Cons.prems have ne: "findIndex P xs \<noteq> - 1"
      by (auto simp: Let_def split: if_splits)
    with findIndex_range [of P xs] have nn: "0 \<le> findIndex P xs" by auto
    from False ne have eq: "findIndex P (x # xs) = findIndex P xs + 1"
      by (simp add: Let_def)
    from nn have n: "nat (findIndex P xs + 1) = Suc (nat (findIndex P xs))" by simp
    from Cons.IH [OF ne] False show ?thesis
      unfolding eq n by (auto simp: less_Suc_eq_0_disj)
  qed
qed

lemma applyFilters_ok:
  "vresults v \<noteq> [] \<Longrightarrow> 0 \<le> currentIndex v \<Longrightarrow> viewer_ok (applyFilters p v)"
  by (auto simp: applyFilters_def viewer_ok_def Let_def)

lemma loadResults_ok: "rs \<noteq> [] \<Longrightarrow> viewer_ok (loadResults p rs v)"
  by (auto simp: loadResults_def applyFilters_def viewer_ok_def Let_def)

lemma run_op_ok: "viewer_ok v \<Longrightarrow> viewer_ok (run_op p v op)"
proof (cases op)
  case (JumpTo i)
  assume "viewer_ok v"
  then show ?thesis
    using findIndex_range [of "\<lambda>r. index r = Some i" "filteredResults v"] JumpTo
    by (auto simp: jumpTo_def viewer_ok_def Let_def)
qed (auto simp: updateFilter_def clearFilters_def next_op_def previous_op_def first_op_def
      last_op_def viewer_ok_def intro!: applyFilters_ok [unfolded viewer_ok_def])

lemma run_ops_ok: "viewer_ok v \<Longrightarrow> viewer_ok (run_ops p v ops)"
  unfolding run_ops_def
  by (induction ops arbitrary: v) (simp_all add: run_op_ok)

text \<open>
  Claim C10. After \<open>loadResults\<close> with a non-empty sequence and any sequence of
  \<open>updateFilter\<close>, \<open>clearFilters\<close>, \<open>next\<close>, \<open>previous\<close>, \<open>first\<close>, \<open>last\<close> and \<open>jumpTo\<close>, the
  filtered view is non-empty and the position lies in it; \<open>applyFilters\<close> resets a
  position at or beyond the end of the new view to 0.
\<close>

theorem viewer_position_invariant:
  assumes "rs \<noteq> []"
  shows "filteredResults (run_ops p (loadResults p rs v) ops) \<noteq> [] \<and>
         0 \<le> currentIndex (run_ops p (loadResults p rs v) ops) \<and>
         currentIndex (run_ops p (loadResults p rs v) ops) <
           int (length (filteredResults (run_ops p (loadResults p rs v) ops))) \<and>
         (\<forall>w. int (length (filteredResults (applyFilters p w))) \<le> currentIndex w \<longrightarrow>
              currentIndex (applyFilters p w) = 0)"
proof -
  have "viewer_ok (run_ops p (loadResults p rs v) ops)"
    by (rule run_ops_ok [OF loadResults_ok [OF assms]])
  moreover have "\<forall>w. int (length (filteredResults (applyFilters p w))) \<le> currentIndex w \<longrightarrow>
              currentIndex (applyFilters p w) = 0"
    by (auto simp: applyFilters_def Let_def)
  ultimately show ?thesis by (simp add: viewer_ok_def)
qed


lemma filter_example_none:
  "filterResults example_parser no_criteria = [example_frame_2, empty_frame]"
  by (simp add: filterResults_def example_parser_def no_criteria_def)

lemma filter_example_extra:
  "filterResults example_parser (no_criteria\<lparr>extraInDb := True\<rparr>) = []"
  by (simp add: filterResults_def example_parser_def no_criteria_def example_frame_2_def
      empty_frame_def no_flags_def)

lemma filter_example_missing:
  "filterResults example_parser (no_criteria\<lparr>missingInDb := True\<rparr>) = [example_frame_2]"
  by (simp add: filterResults_def example_parser_def no_criteria_def example_frame_2_def
      empty_frame_def no_flags_def)

lemma load_example:
  "loadResults example_parser (results example_parser) new_viewer = loaded_viewer"
  by (simp add: loadResults_def applyFilters_def new_viewer_def loaded_viewer_def
      filter_example_none Let_def) (simp add: example_parser_def)

text \<open>
  Claim C5, as amended. When the viewer holds results and the combined filter matches none
  of the parser's results, \<open>applyFilters\<close> presents the full unfiltered sequence. It returns
  nothing and records no fallback flag: the viewer changes in its filtered view and, when
  the position is out of bounds, in its position, and in nothing else.
\<close>

theorem applyFilters_fallback:
  assumes "vresults v \<noteq> []" and "filterResults p (filterCriteria v) = []"
  shows "applyFilters p v =
     v\<lparr>filteredResults := vresults v,
       currentIndex := (if int (length (vresults v)) \<le> currentIndex v then 0 else currentIndex v)\<rparr>"
  using assms by (simp add: applyFilters_def Let_def)

theorem applyFilters_fallback_witness:
  "vresults loaded_viewer \<noteq> [] \<and>
   filterResults example_parser (no_criteria\<lparr>extraInDb := True\<rparr>) = [] \<and>
   applyFilters example_parser (loaded_viewer\<lparr>filterCriteria := no_criteria\<lparr>extraInDb := True\<rparr>\<rparr>) =
     loaded_viewer\<lparr>filterCriteria := no_criteria\<lparr>extraInDb := True\<rparr>\<rparr>"
proof -
  let ?v = "loaded_viewer\<lparr>filterCriteria := no_criteria\<lparr>extraInDb := True\<rparr>\<rparr>"
  have a: "vresults ?v \<noteq> []" by (simp add: loaded_viewer_def)
  have b: "filterResults example_parser (filterCriteria ?v) = []"
    by (simp add: filter_example_extra)
  from applyFilters_fallback [OF a b] show ?thesis
    using filter_example_extra by (simp add: loaded_viewer_def)
qed

text \<open>
  Claim C5 as stated has the caller informed of the fallback. On the loaded example session
  the filter \<open>extraInDb\<close> matches nothing and the empty filter matches everything; the
  viewer after \<open>updateFilter\<close> with the first is the viewer before it with only the
  criterion changed, and \<open>applyFilters\<close> leaves the same state in both runs but for the
  criteria that the caller passed in.
\<close>

theorem no_fallback_flag_counterexample:
  "results example_parser \<noteq> [] \<and>
   vresults loaded_viewer = results example_parser \<and>
   filterResults example_parser (no_criteria\<lparr>extraInDb := True\<rparr>) = [] \<and>
   filterResults example_parser no_criteria = results example_parser \<and>
   updateFilter example_parser ''extraInDb'' True loaded_viewer =
     loaded_viewer\<lparr>filterCriteria := no_criteria\<lparr>extraInDb := True\<rparr>\<rparr> \<and>
   applyFilters example_parser (loaded_viewer\<lparr>filterCriteria := no_criteria\<lparr>extraInDb := True\<rparr>\<rparr>) =
     (applyFilters example_parser loaded_viewer)\<lparr>filterCriteria := no_criteria\<lparr>extraInDb := True\<rparr>\<rparr>"
proof -
  have c: "set_criterion ''extraInDb'' True no_criteria = no_criteria\<lparr>extraInDb := True\<rparr>"
    by (simp add: set_criterion_def)
  have "applyFilters example_parser (loaded_viewer\<lparr>filterCriteria := no_criteria\<lparr>extraInDb := True\<rparr>\<rparr>) =
     loaded_viewer\<lparr>filterCriteria := no_criteria\<lparr>extraInDb := True\<rparr>\<rparr>"
    by (simp add: applyFilters_def filter_example_extra Let_def loaded_viewer_def)
  moreover have "applyFilters example_parser loaded_viewer = loaded_viewer"
    by (simp add: applyFilters_def Let_def loaded_viewer_def filter_example_none)
  moreover have "filterCriteria loaded_viewer = no_criteria"
    by (simp add: loaded_viewer_def)
  moreover have "results example_parser = [example_frame_2, empty_frame]"
    "vresults loaded_viewer = [example_frame_2, empty_frame]"
    by (simp_all add: example_parser_def loaded_viewer_def)
  ultimately show ?thesis
    by (simp add: updateFilter_def c filter_example_extra filter_example_none)
qed

text \<open>
  Claim C6. \<open>next\<close> at the last position and \<open>previous\<close> at position 0 leave the viewer
  unchanged. \<open>jumpTo\<close> searches the filtered view for a result whose \<open>index\<close> equals the
  argument: when there is one it returns true and moves to the first such position, when
  there is none it returns false and leaves the viewer unchanged. It is a total function.
\<close>

theorem navigation_boundaries:
  "(currentIndex v = int (length (filteredResults v)) - 1 \<longrightarrow> next_op v = v) \<and>
   (currentIndex v = 0 \<longrightarrow> previous_op v = v) \<and>
   ((\<exists>r\<in>set (filteredResults v). index r = Some i) \<longrightarrow>
      (\<exists>k. jumpTo i v = (True, v\<lparr>currentIndex := int k\<rparr>) \<and>
           k < length (filteredResults v) \<and>
           index (filteredResults v ! k) = Some i \<and>
           (\<forall>j<k. index (filteredResults v ! j) \<noteq> Some i))) \<and>
   ((\<forall>r\<in>set (filteredResults v). index r \<noteq> Some i) \<longrightarrow> jumpTo i v = (False, v))"
proof (intro conjI impI)
  assume "\<exists>r\<in>set (filteredResults v). index r = Some i"
  let ?P = "\<lambda>r. index r = Some i"
  let ?n = "findIndex ?P (filteredResults v)"
  from \<open>\<exists>r\<in>set (filteredResults v). index r = Some i\<close>
  have ne: "?n \<noteq> - 1" by (simp add: findIndex_none)
  with findIndex_range [of ?P "filteredResults v"]
  have rng: "0 \<le> ?n" "?n < int (length (filteredResults v))" by auto
  from findIndex_first [OF ne]
  have fst: "?P (filteredResults v ! nat ?n)" "\<forall>j<nat ?n. \<not> ?P (filteredResults v ! j)"
    by auto
  have "jumpTo i v = (True, v\<lparr>currentIndex := int (nat ?n)\<rparr>)"
    using ne rng by (simp add: jumpTo_def Let_def)
  moreover have "nat ?n < length (filteredResults v)" using rng by simp
  ultimately show "\<exists>k. jumpTo i v = (True, v\<lparr>currentIndex := int k\<rparr>) \<and>
           k < length (filteredResults v) \<and>
           index (filteredResults v ! k) = Some i \<and>
           (\<forall>j<k. index (filteredResults v ! j) \<noteq> Some i)"
    using fst by blast
next
  assume "\<forall>r\<in>set (filteredResults v). index r \<noteq> Some i"
  then have "findIndex (\<lambda>r. index r = Some i) (filteredResults v) = - 1"
    by (simp add: findIndex_none)
  then show "jumpTo i v = (False, v)"
    by (simp add: jumpTo_def)
qed (simp_all add: next_op_def previous_op_def)

theorem navigation_boundaries_witness:
  "next_op (loaded_viewer\<lparr>currentIndex := 1\<rparr>) = loaded_viewer\<lparr>currentIndex := 1\<rparr> \<and>
   previous_op loaded_viewer = loaded_viewer \<and>
   jumpTo 2 (loaded_viewer\<lparr>currentIndex := 1\<rparr>) = (True, loaded_viewer\<lparr>currentIndex := 0\<rparr>) \<and>
   jumpTo 99 (loaded_viewer\<lparr>currentIndex := 1\<rparr>) = (False, loaded_viewer\<lparr>currentIndex := 1\<rparr>)"
proof -
  let ?v = "loaded_viewer\<lparr>currentIndex := 1\<rparr>"
  have fr: "filteredResults ?v = [example_frame_2, empty_frame]"
    and i0: "index example_frame_2 = Some 2" and i1: "index empty_frame = None"
    and c0: "currentIndex loaded_viewer = 0" and c1: "currentIndex ?v = 1"
    and fl: "filteredResults loaded_viewer = [example_frame_2, empty_frame]"
    by (simp_all add: loaded_viewer_def example_frame_2_def empty_frame_def)
  have n: "next_op ?v = ?v"
    using navigation_boundaries [of ?v 2] by (simp add: fr)
  have p: "previous_op loaded_viewer = loaded_viewer"
    using navigation_boundaries [of loaded_viewer 2] by (simp add: c0)
  have m: "jumpTo 99 ?v = (False, ?v)"
    using navigation_boundaries [of ?v 99] by (simp add: fr i0 i1)
  from navigation_boundaries [of ?v 2] obtain k where
    k: "jumpTo 2 ?v = (True, ?v\<lparr>currentIndex := int k\<rparr>)" "k < 2"
       "index ([example_frame_2, empty_frame] ! k) = Some 2"
    by (auto simp: fr i0)
  from k(2,3) have "k = 0" by (cases k) (auto simp: i1)
  with k(1) have j: "jumpTo 2 ?v = (True, loaded_viewer\<lparr>currentIndex := 0\<rparr>)" by simp
  show ?thesis using n p m j by simp
qed

theorem viewer_position_invariant_witness:
  "results example_parser \<noteq> [] \<and>
   loadResults example_parser (results example_parser) new_viewer = loaded_viewer \<and>
   run_ops example_parser loaded_viewer example_ops =
     loaded_viewer\<lparr>currentIndex := 1, filterCriteria := no_criteria\<lparr>extraInDb := True\<rparr>\<rparr> \<and>
   filteredResults (run_ops example_parser loaded_viewer example_ops) \<noteq> [] \<and>
   0 \<le> currentIndex (run_ops example_parser loaded_viewer example_ops) \<and>
   currentIndex (run_ops example_parser loaded_viewer example_ops) <
     int (length (filteredResults (run_ops example_parser loaded_viewer example_ops))) \<and>
   currentIndex (applyFilters example_parser
     (loaded_viewer\<lparr>currentIndex := 1, filterCriteria := no_criteria\<lparr>missingInDb := True\<rparr>\<rparr>)) = 0"
proof -
  have ne: "results example_parser \<noteq> []" by (simp add: example_parser_def)
  have c1: "set_criterion ''missingInDb'' True no_criteria = no_criteria\<lparr>missingInDb := True\<rparr>"
    and c2: "set_criterion ''extraInDb'' True no_criteria = no_criteria\<lparr>extraInDb := True\<rparr>"
    by (simp_all add: set_criterion_def)
  have run: "run_ops example_parser loaded_viewer example_ops =
     loaded_viewer\<lparr>currentIndex := 1, filterCriteria := no_criteria\<lparr>extraInDb := True\<rparr>\<rparr>"
    by (simp add: run_ops_def example_ops_def loaded_viewer_def next_op_def last_op_def
        updateFilter_def clearFilters_def applyFilters_def jumpTo_def c1 c2 Let_def
        filter_example_none filter_example_extra filter_example_missing)
  have ap: "filteredResults (applyFilters example_parser
     (loaded_viewer\<lparr>currentIndex := 1, filterCriteria := no_criteria\<lparr>missingInDb := True\<rparr>\<rparr>)) =
       [example_frame_2]"
    by (simp add: applyFilters_def Let_def filter_example_missing)
  from viewer_position_invariant [OF ne, of example_parser new_viewer example_ops]
  show ?thesis
    unfolding load_example using ne run ap
    by (auto simp: loaded_viewer_def)
qed

section \<open>The parser: defaults and failures\<close>

lemma validateAndParse_metadata:
  assumes "validateAndParse p data = Inr p'"
  shows "\<exists>sid rs. rd_results data = Some rs \<and>
     sessionMetadata p' = Some \<lparr>sessionId = sid,
         platform = or_text (rd_platform data) ''unknown'',
         channel = or_text (rd_channel data) ''unknown'',
         date = or_text (rd_date data) ''unknown'',
         startTime = or_str (rd_start_time data) None,
         endTime = or_str (rd_end_time data) None,
         analyzedAt = or_str (rd_analyzed_at data) None,
         total = or_num (rd_total data) (of_nat (length rs))\<rparr>"
proof (cases "rd_session_id data")
  case None
  with assms show ?thesis by (simp add: validateAndParse_def)
next
  case (Some sid)
  show ?thesis
  proof (cases "rd_results data")
    case None
    with assms Some show ?thesis by (simp add: validateAndParse_def split: if_splits)
  next
    case (Some rs)
    show ?thesis
    proof (cases "parse_all rs")
      case (Inl e)
      with assms \<open>rd_session_id data = Some sid\<close> Some show ?thesis
        by (simp add: validateAndParse_def split: if_splits)
    next
      case (Inr parsed)
      with assms \<open>rd_session_id data = Some sid\<close> Some show ?thesis
        by (cases "sid = []") (auto simp: validateAndParse_def)
    qed
  qed
qed

text \<open>
  Claim C8, as amended. During parsing the optional fields receive these defaults:
  \<open>platform\<close>, \<open>channel\<close> and \<open>date\<close> default to \<open>unknown\<close>; \<open>total\<close> defaults to the number
  of results; the numeric fields \<open>number_of_games\<close>, \<open>latency_ms\<close>, \<open>game_count\<close> and
  \<open>true_airtime\<close> default to 0; the list fields \<open>games\<close>, \<open>sliding_window_state\<close>,
  \<open>db_sessions\<close> and \<open>db_game_counts\<close> default to the empty sequence; the boolean fields
  \<open>is_uniform_frame\<close> and \<open>applied_threshold\<close> default to false; \<open>matches_screenshot\<close>
  defaults to true, and is false only when the document gives false.
\<close>

theorem parse_defaults:
  "(\<forall>p'. validateAndParse p data = Inr p' \<longrightarrow>
      (\<exists>m rs. sessionMetadata p' = Some m \<and> rd_results data = Some rs \<and>
         (rd_platform data = None \<longrightarrow> platform m = ''unknown'') \<and>
         (rd_channel data = None \<longrightarrow> channel m = ''unknown'') \<and>
         (rd_date data = None \<longrightarrow> date m = ''unknown'') \<and>
         (rd_total data = None \<longrightarrow> total m = of_nat (length rs)))) \<and>
   (\<exists>m. parseMLInference (Some ml) = Some m \<and>
      (rml_games ml = None \<longrightarrow> ml_games m = []) \<and>
      (rml_number_of_games ml = None \<longrightarrow> ml_numberOfGames m = 0) \<and>
      (rml_latency_ms ml = None \<longrightarrow> ml_latencyMs m = 0) \<and>
      (rml_is_uniform_frame ml = None \<longrightarrow> ml_isUniformFrame m = Some False)) \<and>
   (\<exists>q. parsePostProcessed (Some pp) = Some q \<and>
      (rpp_games pp = None \<longrightarrow> pp_games q = []) \<and>
      (rpp_game_count pp = None \<longrightarrow> pp_gameCount q = 0) \<and>
      (rpp_sliding_window_state pp = None \<longrightarrow> pp_slidingWindowState q = []) \<and>
      (rpp_applied_threshold pp = None \<longrightarrow> pp_appliedThreshold q = Some False)) \<and>
   parseDBSessions None = [] \<and>
   parseDBGameCounts None = [] \<and>
   length (parseDBSessions (Some ss)) = length ss \<and>
   (\<forall>i<length ss.
      (rdb_true_airtime (ss ! i) = None \<longrightarrow> db_trueAirtime (parseDBSessions (Some ss) ! i) = 0) \<and>
      (rdb_matches_screenshot (ss ! i) = None \<longrightarrow>
         db_matchesScreenshot (parseDBSessions (Some ss) ! i) = True) \<and>
      (db_matchesScreenshot (parseDBSessions (Some ss) ! i) = False \<longleftrightarrow>
         rdb_matches_screenshot (ss ! i) = Some False))"
proof (intro conjI allI impI)
  fix p' assume ok: "validateAndParse p data = Inr p'"
  from validateAndParse_metadata [OF ok] obtain sid rs where
    rs: "rd_results data = Some rs" and
    m: "sessionMetadata p' = Some \<lparr>sessionId = sid,
         platform = or_text (rd_platform data) ''unknown'',
         channel = or_text (rd_channel data) ''unknown'',
         date = or_text (rd_date data) ''unknown'',
         startTime = or_str (rd_start_time data) None,
         endTime = or_str (rd_end_time data) None,
         analyzedAt = or_str (rd_analyzed_at data) None,
         total = or_num (rd_total data) (of_nat (length rs))\<rparr>"
    by blast
  show "\<exists>m rs. sessionMetadata p' = Some m \<and> rd_results data = Some rs \<and>
         (rd_platform data = None \<longrightarrow> platform m = ''unknown'') \<and>
         (rd_channel data = None \<longrightarrow> channel m = ''unknown'') \<and>
         (rd_date data = None \<longrightarrow> date m = ''unknown'') \<and>
         (rd_total data = None \<longrightarrow> total m = of_nat (length rs))"
    unfolding m rs by (simp add: or_text_def or_num_def)
next
  show "\<exists>m. parseMLInference (Some ml) = Some m \<and>
      (rml_games ml = None \<longrightarrow> ml_games m = []) \<and>
      (rml_number_of_games ml = None \<longrightarrow> ml_numberOfGames m = 0) \<and>
      (rml_latency_ms ml = None \<longrightarrow> ml_latencyMs m = 0) \<and>
      (rml_is_uniform_frame ml = None \<longrightarrow> ml_isUniformFrame m = Some False)"
    by (simp add: parseMLInference_def or_list_def or_num_def or_bool_def)
next
  show "\<exists>q. parsePostProcessed (Some pp) = Some q \<and>
      (rpp_games pp = None \<longrightarrow> pp_games q = []) \<and>
      (rpp_game_count pp = None \<longrightarrow> pp_gameCount q = 0) \<and>
      (rpp_sliding_window_state pp = None \<longrightarrow> pp_slidingWindowState q = []) \<and>
      (rpp_applied_threshold pp = None \<longrightarrow> pp_appliedThreshold q = Some False)"
    by (simp add: parsePostProcessed_def or_list_def or_num_def or_bool_def)
next
  fix i assume "i < length ss" "rdb_true_airtime (ss ! i) = None"
  then show "db_trueAirtime (parseDBSessions (Some ss) ! i) = 0"
    by (simp add: parseDBSessions_def or_num_def)
next
  fix i assume "i < length ss" "rdb_matches_screenshot (ss ! i) = None"
  then show "db_matchesScreenshot (parseDBSessions (Some ss) ! i) = True"
    by (simp add: parseDBSessions_def)
next
  fix i assume "i < length ss"
  then show "(db_matchesScreenshot (parseDBSessions (Some ss) ! i) = False) =
         (rdb_matches_screenshot (ss ! i) = Some False)"
    by (simp add: parseDBSessions_def)
qed (simp_all add: parseDBSessions_def parseDBGameCounts_def)


theorem parse_defaults_witness:
  "validateAndParse new_parser example_document = Inr example_parser \<and>
   map_option platform (sessionMetadata example_parser) = Some ''unknown'' \<and>
   map_option channel (sessionMetadata example_parser) = Some ''unknown'' \<and>
   map_option date (sessionMetadata example_parser) = Some ''unknown'' \<and>
   map_option total (sessionMetadata example_parser) = Some 2 \<and>
   parseMLInference (Some empty_ml_inference) =
     Some \<lparr>ml_games = [], ml_numberOfGames = 0, ml_latencyMs = 0,
           ml_isUniformFrame = Some False, ml_error = None\<rparr> \<and>
   parsePostProcessed (Some empty_post_processed) =
     Some \<lparr>pp_games = [], pp_gameCount = 0, pp_eventType = ''UNKNOWN'',
           pp_appliedThreshold = Some False, pp_slidingWindowState = [], pp_error = None\<rparr> \<and>
   map db_trueAirtime (parseDBSessions (Some [empty_db_session])) = [0] \<and>
   map db_matchesScreenshot (parseDBSessions (Some [empty_db_session])) = [True]"
proof -
  have ok: "validateAndParse new_parser example_document = Inr example_parser"
    by (rule parse_example_document)
  have d: "rd_platform example_document = None" "rd_channel example_document = None"
    "rd_date example_document = None" "rd_total example_document = None"
    "rd_results example_document = Some [example_result_2, empty_result]"
    by (simp_all add: example_document_def empty_data_def)
  have e: "rml_games empty_ml_inference = None" "rml_number_of_games empty_ml_inference = None"
    "rml_latency_ms empty_ml_inference = None" "rml_is_uniform_frame empty_ml_inference = None"
    "rpp_games empty_post_processed = None" "rpp_game_count empty_post_processed = None"
    "rpp_sliding_window_state empty_post_processed = None"
    "rpp_applied_threshold empty_post_processed = None"
    "rdb_true_airtime empty_db_session = None" "rdb_matches_screenshot empty_db_session = None"
    by (simp_all add: empty_ml_inference_def empty_post_processed_def empty_db_session_def)
  note t = parse_defaults [of new_parser example_document empty_ml_inference
      empty_post_processed "[empty_db_session]"]
  from t ok have "\<exists>m rs. sessionMetadata example_parser = Some m \<and>
         rd_results example_document = Some rs \<and>
         (rd_platform example_document = None \<longrightarrow> platform m = ''unknown'') \<and>
         (rd_channel example_document = None \<longrightarrow> channel m = ''unknown'') \<and>
         (rd_date example_document = None \<longrightarrow> date m = ''unknown'') \<and>
         (rd_total example_document = None \<longrightarrow> total m = of_nat (length rs))"
    by blast
  then obtain m rs where m: "sessionMetadata example_parser = Some m"
    "rd_results example_document = Some rs"
    "platform m = ''unknown''" "channel m = ''unknown''" "date m = ''unknown''"
    "total m = of_nat (length rs)"
    using d(1-4) by blast
  from m(2) d(5) have "length rs = 2" by auto
  with m have meta:
    "map_option platform (sessionMetadata example_parser) = Some ''unknown''"
    "map_option channel (sessionMetadata example_parser) = Some ''unknown''"
    "map_option date (sessionMetadata example_parser) = Some ''unknown''"
    "map_option total (sessionMetadata example_parser) = Some 2"
    by simp_all
  have db:
    "map db_trueAirtime (parseDBSessions (Some [empty_db_session])) = [0]"
    "map db_matchesScreenshot (parseDBSessions (Some [empty_db_session])) = [True]"
    by (simp_all add: parse_defs)
  have ml: "parseMLInference (Some empty_ml_inference) =
     Some \<lparr>ml_games = [], ml_numberOfGames = 0, ml_latencyMs = 0,
           ml_isUniformFrame = Some False, ml_error = None\<rparr>"
    by (simp add: parse_defs)
  have pp: "parsePostProcessed (Some empty_post_processed) =
     Some \<lparr>pp_games = [], pp_gameCount = 0, pp_eventType = ''UNKNOWN'',
           pp_appliedThreshold = Some False, pp_slidingWindowState = [], pp_error = None\<rparr>"
    by (simp add: parse_defs)
  show ?thesis using ok meta db ml pp by simp
qed

text \<open>
  Claim C8 as stated has every boolean field default to false. A database session \<open>{}\<close>,
  without \<open>matches_screenshot\<close>, is parsed to a session whose \<open>matchesScreenshot\<close> is true.
\<close>

theorem matches_screenshot_default_counterexample:
  "rdb_matches_screenshot empty_db_session = None \<and>
   map db_matchesScreenshot (parseDBSessions (Some [empty_db_session])) = [True] \<and>
   map db_matchesScreenshot (parseDBSessions (Some [empty_db_session])) \<noteq> [False]"
  by (simp add: parseDBSessions_def empty_db_session_def)

text \<open>
  Claim C9, as amended. \<open>parseResult\<close> throws on no missing field: an absent screenshot,
  inference or post-processing stage stays absent, absent database lists become empty, an
  absent flag object becomes \<open>{}\<close> with \<open>hasDiscrepancy\<close> false; and it does not throw
  when \<open>index\<close> is absent either: the index of the result is then undefined.
\<close>

theorem parseResult_never_throws:
  "\<exists>fr. parseResult raw = Inr fr \<and>
     index fr = rr_index raw \<and>
     (rr_screenshot raw = None \<longrightarrow> screenshot fr = None) \<and>
     (rr_ml_inference raw = None \<longrightarrow> mlInference fr = None) \<and>
     (rr_post_processed raw = None \<longrightarrow> postProcessed fr = None) \<and>
     (rr_db_sessions raw = None \<longrightarrow> dbSessions fr = []) \<and>
     (rr_db_game_counts raw = None \<longrightarrow> dbGameCounts fr = []) \<and>
     (rr_discrepancy_flags raw = None \<longrightarrow>
        discrepancyFlags fr = no_flags \<and> hasDiscrepancy fr = Some False)"
  by (simp add: parseResult_def parseScreenshot_def parseMLInference_def
      parsePostProcessed_def parseDBSessions_def parseDBGameCounts_def hasAnyDiscrepancy_def)

theorem parseResult_never_throws_witness:
  "rr_index empty_result = None \<and> rr_screenshot empty_result = None \<and>
   rr_ml_inference empty_result = None \<and> rr_post_processed empty_result = None \<and>
   rr_db_sessions empty_result = None \<and> rr_db_game_counts empty_result = None \<and>
   rr_discrepancy_flags empty_result = None \<and>
   (\<exists>fr. parseResult empty_result = Inr fr \<and> index fr = None \<and> screenshot fr = None \<and>
      mlInference fr = None \<and> postProcessed fr = None \<and> dbSessions fr = [] \<and>
      dbGameCounts fr = [] \<and> discrepancyFlags fr = no_flags \<and> hasDiscrepancy fr = Some False)"
proof -
  have e: "rr_index empty_result = None" "rr_screenshot empty_result = None"
   "rr_ml_inference empty_result = None" "rr_post_processed empty_result = None"
   "rr_db_sessions empty_result = None" "rr_db_game_counts empty_result = None"
   "rr_discrepancy_flags empty_result = None"
    by (simp_all add: empty_result_def)
  from parseResult_never_throws [of empty_result] show ?thesis
    using e by auto
qed

text \<open>
  Claim C9 as stated has \<open>parseResult\<close> throw exactly when \<open>index\<close> is absent. The result
  object \<open>{}\<close> has no index, and \<open>parseResult\<close> returns a frame for it.
\<close>

theorem index_absent_counterexample:
  "rr_index empty_result = None \<and>
   parseResult empty_result = Inr empty_frame \<and>
   \<not> isl (parseResult empty_result)"
  using parse_empty by (simp add: empty_result_def)

end
